theory Spec2Isabelle
  imports Complex_Main
begin

section \<open>Configuration resolution of the top-level client (exoscale/__init__.py)\<close>

text \<open>
  The constructor \<open>Exoscale.__init__\<close> assembles the API credentials and the per-family
  endpoints from its keyword arguments, a TOML configuration file and the process
  environment.  The embedding follows the constructor statement by statement.

  Typing: every constructor parameter that the docstring declares as \<open>str\<close> is a
  \<open>string option\<close> (\<open>None\<close> is Python's \<open>None\<close>); the configuration file is taken to have
  the shape the code reads (a string \<open>default_profile\<close>, an array of tables \<open>profiles\<close>
  whose entries are strings); any of these keys may be missing.  Exceptions are values
  of type \<open>error\<close>.
\<close>

datatype error =
    ConfigurationError string
  | KeyError string
  | FileNotFoundError string
  | LoadError string

text \<open>A profile is a TOML table: a dictionary from key to string.\<close>

type_synonym profile = "string \<rightharpoonup> string"

text \<open>
  The parsed configuration file, a dictionary.  \<open>other_keys\<close> lists the top-level keys
  besides \<open>default_profile\<close> and \<open>profiles\<close>: they only matter for the truth value of
  the dictionary (an empty dictionary is falsy).
\<close>

record config =
  default_profile :: "string option"
  profiles :: "profile list option"
  other_keys :: "string list"

text \<open>
  What \<open>open(path)\<close> followed by \<open>toml.load\<close> finds at a path that exists: something
  that cannot be opened or parsed, or a parsed dictionary.
\<close>

datatype path_content = Unloadable | Toml config

text \<open>
  The iteration order of the set literal \<open>{"name", "api_key", "api_secret"}\<close>: it is
  fixed by the interpreter's string hashing, not by the program, so it is part of the
  surroundings.  The six values are the six orders (N for name, K for api_key, S for
  api_secret).
\<close>

datatype key_order = NKS | NSK | KNS | KSN | SNK | SKN

text \<open>
  The surroundings of a construction: the process environment (\<open>os.getenv\<close>), the
  file system, the home directory from which the module computes the default
  configuration path when it is imported, and the set iteration order.
\<close>

record world =
  getenv :: "string \<rightharpoonup> string"
  files :: "string \<rightharpoonup> path_content"
  home :: string
  set_order :: key_order

text \<open>
  The parameters of \<open>Exoscale.__init__\<close>.  The constructor rebinds these local
  variables while it resolves them, so the same record also holds the resolved values.
\<close>

record args =
  config_file :: "string option"
  profile :: "string option"
  api_key :: "string option"
  api_secret :: "string option"
  compute_api_endpoint :: "string option"
  dns_api_endpoint :: "string option"
  storage_api_endpoint :: "string option"
  storage_zone :: "string option"
  runstatus_api_endpoint :: "string option"
  iam_api_endpoint :: "string option"
  max_retries :: int
  trace :: bool

text \<open>
  The keyword arguments handed to one family client.  \<open>kw_endpoint\<close> and \<open>kw_zone\<close> are
  \<open>None\<close> when the dictionary has no such key (the constructor adds them only when
  the value \<open>is not None\<close>).
\<close>

record kwargs =
  kw_key :: string
  kw_secret :: string
  kw_max_retries :: int
  kw_trace :: bool
  kw_endpoint :: "string option"
  kw_zone :: "string option"

text \<open>
  The constructed top-level client: its two attributes and, for each family, the
  keyword arguments its client is constructed from.  The constructors of the family
  clients are not part of this module; they are taken to return, so that the
  constructor returns once it has passed the credentials check of line 164.
\<close>

record exoscale =
  self_api_key :: string
  self_api_secret :: string
  compute :: kwargs
  dns :: kwargs
  storage :: kwargs
  runstatus :: kwargs
  iam :: kwargs

subsection \<open>Module constants\<close>

definition API_KEY_ENVVAR :: string where
  "API_KEY_ENVVAR = ''EXOSCALE_API_KEY''"

definition API_SECRET_ENVVAR :: string where
  "API_SECRET_ENVVAR = ''EXOSCALE_API_SECRET''"

definition COMPUTE_API_ENDPOINT_ENVVAR :: string where
  "COMPUTE_API_ENDPOINT_ENVVAR = ''EXOSCALE_COMPUTE_API_ENDPOINT''"

definition DNS_API_ENDPOINT_ENVVAR :: string where
  "DNS_API_ENDPOINT_ENVVAR = ''EXOSCALE_DNS_API_ENDPOINT''"

definition RUNSTATUS_API_ENDPOINT_ENVVAR :: string where
  "RUNSTATUS_API_ENDPOINT_ENVVAR = ''EXOSCALE_RUNSTATUS_API_ENDPOINT''"

definition STORAGE_API_ENDPOINT_ENVVAR :: string where
  "STORAGE_API_ENDPOINT_ENVVAR = ''EXOSCALE_STORAGE_API_ENDPOINT''"

definition IAM_API_ENDPOINT_ENVVAR :: string where
  "IAM_API_ENDPOINT_ENVVAR = ''EXOSCALE_IAM_API_ENDPOINT''"

definition STORAGE_ZONE_ENVVAR :: string where
  "STORAGE_ZONE_ENVVAR = ''EXOSCALE_STORAGE_ZONE''"

definition CONFIG_FILE_ENVVAR :: string where
  "CONFIG_FILE_ENVVAR = ''EXOSCALE_CONFIG_FILE''"

text \<open>\<open>os.path.join\<close> of a directory and a relative file name (POSIX).\<close>

definition path_join :: "string \<Rightarrow> string \<Rightarrow> string" where
  "path_join d f = (if d = [] then f else if last d = CHR ''/'' then d @ f else d @ ''/'' @ f)"

definition DEFAULT_CONFIG_FILE :: "world \<Rightarrow> string" where
  "DEFAULT_CONFIG_FILE w = path_join (home w) ''config.toml''"

subsection \<open>Python's truth value and conditional expression\<close>

text \<open>\<open>None\<close> and the empty string are falsy, every other string is truthy.\<close>

fun truthy :: "string option \<Rightarrow> bool" where
  "truthy None = False"
| "truthy (Some s) = (s \<noteq> [])"

text \<open>\<open>x if x else y\<close>.\<close>

definition if_else :: "string option \<Rightarrow> string option \<Rightarrow> string option" where
  "if_else x y = (if truthy x then x else y)"

text \<open>The truth value of \<open>getattr(self, "_config", None)\<close>: falsy when the attribute
  was never set and when the dictionary is empty.\<close>

fun config_truthy :: "config option \<Rightarrow> bool" where
  "config_truthy None = False"
| "config_truthy (Some c) =
     (default_profile c \<noteq> None \<or> profiles c \<noteq> None \<or> other_keys c \<noteq> [])"

subsection \<open>Loading the configuration file (lines 70 to 83)\<close>

text \<open>\<open>with open(path) as f: toml.load(f)\<close>.\<close>

definition toml_load :: "world \<Rightarrow> string \<Rightarrow> error + config" where
  "toml_load w path =
     (case files w path of
        None \<Rightarrow> Inl (FileNotFoundError path)
      | Some Unloadable \<Rightarrow> Inl (LoadError path)
      | Some (Toml c) \<Rightarrow> Inr c)"

text \<open>
  The value of \<open>self._config\<close> after the two loading statements: \<open>None\<close> when the
  attribute was never set.
\<close>

definition load_config :: "world \<Rightarrow> args \<Rightarrow> error + config option" where
  "load_config w a =
     (let path = if_else (config_file a) (getenv w CONFIG_FILE_ENVVAR);
          first = (case path of
                     None \<Rightarrow> Inr None
                   | Some p \<Rightarrow>
                       if p \<noteq> [] then
                         (case toml_load w p of Inl e \<Rightarrow> Inl e | Inr c \<Rightarrow> Inr (Some c))
                       else Inr None)
      in case first of
           Inl e \<Rightarrow> Inl e
         | Inr cfg \<Rightarrow>
             if \<not> config_truthy cfg \<and> files w (DEFAULT_CONFIG_FILE w) \<noteq> None then
               (case toml_load w (DEFAULT_CONFIG_FILE w) of
                  Inl e \<Rightarrow> Inl e
                | Inr c \<Rightarrow> Inr (Some c))
             else Inr cfg)"

subsection \<open>Selecting the profile (\<open>_get_profile\<close>, lines 222 to 239)\<close>

definition dq :: char where
  "dq = CHR 0x22"

text \<open>\<open>str.format\<close> of an optional string.\<close>

fun py_str :: "string option \<Rightarrow> string" where
  "py_str None = ''None''"
| "py_str (Some s) = s"

text \<open>
  The \<open>for a in self._config["profiles"]\<close> loop: \<open>a["name"]\<close> raises \<open>KeyError\<close> on a
  profile without that key; when the loop ends without a match the profile is not
  found.
\<close>

fun find_profile :: "profile list \<Rightarrow> string option \<Rightarrow> error + profile" where
  "find_profile [] name = Inl (ConfigurationError
       (''profile '' @ [dq] @ py_str name @ [dq] @ '' not found''))"
| "find_profile (a # as) name =
     (case a ''name'' of
        None \<Rightarrow> Inl (KeyError ''name'')
      | Some n \<Rightarrow> if Some n = name then Inr a else find_profile as name)"

definition get_profile :: "config \<Rightarrow> string option \<Rightarrow> error + profile" where
  "get_profile cfg prof =
     (case profiles cfg of
        None \<Rightarrow> Inl (ConfigurationError ''no profiles configured'')
      | Some [] \<Rightarrow> Inl (ConfigurationError ''no profiles configured'')
      | Some (p0 # ps) \<Rightarrow>
          if truthy prof \<or> default_profile cfg \<noteq> None then
            (let prof' = (if default_profile cfg \<noteq> None \<and> \<not> truthy prof
                          then default_profile cfg else prof)
             in find_profile (p0 # ps) prof')
          else Inr p0)"

subsection \<open>The required keys of the selected profile (lines 87 to 91)\<close>

fun keys_in_order :: "key_order \<Rightarrow> string list" where
  "keys_in_order NKS = [''name'', ''api_key'', ''api_secret'']"
| "keys_in_order NSK = [''name'', ''api_secret'', ''api_key'']"
| "keys_in_order KNS = [''api_key'', ''name'', ''api_secret'']"
| "keys_in_order KSN = [''api_key'', ''api_secret'', ''name'']"
| "keys_in_order SNK = [''api_secret'', ''name'', ''api_key'']"
| "keys_in_order SKN = [''api_secret'', ''api_key'', ''name'']"

definition missing_key_message :: "string \<Rightarrow> string" where
  "missing_key_message k = ''profile missing '' @ [dq] @ k @ [dq] @ '' key''"

fun check_keys :: "string list \<Rightarrow> profile \<Rightarrow> error + unit" where
  "check_keys [] p = Inr ()"
| "check_keys (k # ks) p =
     (if p k = None then Inl (ConfigurationError (missing_key_message k))
      else check_keys ks p)"

text \<open>
  Lines 85 to 91: the selected and checked profile, \<open>None\<close> when no configuration was
  loaded.
\<close>

definition select_profile :: "world \<Rightarrow> args \<Rightarrow> error + profile option" where
  "select_profile w a =
     (case load_config w a of
        Inl e \<Rightarrow> Inl e
      | Inr None \<Rightarrow> Inr None
      | Inr (Some cfg) \<Rightarrow>
          (case get_profile cfg (profile a) of
             Inl e \<Rightarrow> Inl e
           | Inr p \<Rightarrow>
               (case check_keys (keys_in_order (set_order w)) p of
                  Inl e \<Rightarrow> Inl e
                | Inr _ \<Rightarrow> Inr (Some p))))"

subsection \<open>Merging profile, arguments and environment (lines 93 to 162)\<close>

text \<open>\<open>profile[k] if not x else x\<close>: the subscript is evaluated only when \<open>x\<close> is falsy.\<close>

definition subscript_unless :: "profile \<Rightarrow> string \<Rightarrow> string option \<Rightarrow> error + string option" where
  "subscript_unless p k x =
     (if \<not> truthy x then (case p k of None \<Rightarrow> Inl (KeyError k) | Some v \<Rightarrow> Inr (Some v))
      else Inr x)"

text \<open>\<open>profile.get(k, None) if not x else x\<close>.\<close>

definition get_unless :: "profile \<Rightarrow> string \<Rightarrow> string option \<Rightarrow> string option" where
  "get_unless p k x = (if \<not> truthy x then p k else x)"

definition with_profile :: "profile \<Rightarrow> string option \<Rightarrow> string option \<Rightarrow> args \<Rightarrow> args" where
  "with_profile p k s a =
     a\<lparr>api_key := k,
       api_secret := s,
       compute_api_endpoint := get_unless p ''compute_api_endpoint'' (compute_api_endpoint a),
       dns_api_endpoint := get_unless p ''dns_api_endpoint'' (dns_api_endpoint a),
       storage_api_endpoint := get_unless p ''storage_api_endpoint'' (storage_api_endpoint a),
       storage_zone := get_unless p ''storage_zone'' (storage_zone a),
       runstatus_api_endpoint :=
         get_unless p ''runstatus_api_endpoint'' (runstatus_api_endpoint a),
       iam_api_endpoint := get_unless p ''iam_api_endpoint'' (iam_api_endpoint a)\<rparr>"

text \<open>Lines 93 to 126; the two subscripts come first and may raise.\<close>

definition merge_profile :: "profile \<Rightarrow> args \<Rightarrow> error + args" where
  "merge_profile p a =
     (case subscript_unless p ''api_key'' (api_key a) of
        Inl e \<Rightarrow> Inl e
      | Inr k \<Rightarrow>
          (case subscript_unless p ''api_secret'' (api_secret a) of
             Inl e \<Rightarrow> Inl e
           | Inr s \<Rightarrow> Inr (with_profile p k s a)))"

text \<open>Lines 129 to 162.\<close>

definition env_fallback :: "world \<Rightarrow> args \<Rightarrow> args" where
  "env_fallback w a =
     a\<lparr>api_key := if_else (api_key a) (getenv w API_KEY_ENVVAR),
       api_secret := if_else (api_secret a) (getenv w API_SECRET_ENVVAR),
       compute_api_endpoint :=
         if_else (compute_api_endpoint a) (getenv w COMPUTE_API_ENDPOINT_ENVVAR),
       dns_api_endpoint :=
         if_else (dns_api_endpoint a) (getenv w DNS_API_ENDPOINT_ENVVAR),
       storage_api_endpoint :=
         if_else (storage_api_endpoint a) (getenv w STORAGE_API_ENDPOINT_ENVVAR),
       storage_zone :=
         if_else (storage_zone a) (getenv w STORAGE_ZONE_ENVVAR),
       runstatus_api_endpoint :=
         if_else (runstatus_api_endpoint a) (getenv w RUNSTATUS_API_ENDPOINT_ENVVAR),
       iam_api_endpoint :=
         if_else (iam_api_endpoint a) (getenv w IAM_API_ENDPOINT_ENVVAR)\<rparr>"

text \<open>The local variables when line 164 is reached.\<close>

definition resolve :: "world \<Rightarrow> args \<Rightarrow> error + args" where
  "resolve w a =
     (case select_profile w a of
        Inl e \<Rightarrow> Inl e
      | Inr None \<Rightarrow> Inr (env_fallback w a)
      | Inr (Some p) \<Rightarrow>
          (case merge_profile p a of
             Inl e \<Rightarrow> Inl e
           | Inr a' \<Rightarrow> Inr (env_fallback w a')))"

subsection \<open>The credentials check and the family clients (lines 164 to 220)\<close>

definition family_kwargs :: "string \<Rightarrow> string \<Rightarrow> args \<Rightarrow> string option \<Rightarrow> string option \<Rightarrow> kwargs" where
  "family_kwargs k s a ep zone =
     \<lparr>kw_key = k, kw_secret = s, kw_max_retries = max_retries a, kw_trace = trace a,
      kw_endpoint = ep, kw_zone = zone\<rparr>"

definition Exoscale_init :: "world \<Rightarrow> args \<Rightarrow> error + exoscale" where
  "Exoscale_init w a =
     (case resolve w a of
        Inl e \<Rightarrow> Inl e
      | Inr r \<Rightarrow>
          (case (api_key r, api_secret r) of
             (Some k, Some s) \<Rightarrow>
               Inr \<lparr>self_api_key = k, self_api_secret = s,
                    compute = family_kwargs k s r (compute_api_endpoint r) None,
                    dns = family_kwargs k s r (dns_api_endpoint r) None,
                    storage = family_kwargs k s r (storage_api_endpoint r) (storage_zone r),
                    runstatus = family_kwargs k s r (runstatus_api_endpoint r) None,
                    iam = family_kwargs k s r (iam_api_endpoint r) None\<rparr>
           | _ \<Rightarrow> Inl (ConfigurationError ''missing API key/secret'')))"

subsection \<open>The resolvable fields\<close>

text \<open>
  The eight values the constructor resolves, each with its constructor argument (the
  local variable of that name), its environment variable, its key in a profile, and the
  place where the constructed client holds it.
\<close>

datatype field =
    Api_key | Api_secret | Compute_api_endpoint | Dns_api_endpoint
  | Storage_api_endpoint | Storage_zone | Runstatus_api_endpoint | Iam_api_endpoint

fun arg :: "field \<Rightarrow> args \<Rightarrow> string option" where
  "arg Api_key a = api_key a"
| "arg Api_secret a = api_secret a"
| "arg Compute_api_endpoint a = compute_api_endpoint a"
| "arg Dns_api_endpoint a = dns_api_endpoint a"
| "arg Storage_api_endpoint a = storage_api_endpoint a"
| "arg Storage_zone a = storage_zone a"
| "arg Runstatus_api_endpoint a = runstatus_api_endpoint a"
| "arg Iam_api_endpoint a = iam_api_endpoint a"

fun envvar :: "field \<Rightarrow> string" where
  "envvar Api_key = API_KEY_ENVVAR"
| "envvar Api_secret = API_SECRET_ENVVAR"
| "envvar Compute_api_endpoint = COMPUTE_API_ENDPOINT_ENVVAR"
| "envvar Dns_api_endpoint = DNS_API_ENDPOINT_ENVVAR"
| "envvar Storage_api_endpoint = STORAGE_API_ENDPOINT_ENVVAR"
| "envvar Storage_zone = STORAGE_ZONE_ENVVAR"
| "envvar Runstatus_api_endpoint = RUNSTATUS_API_ENDPOINT_ENVVAR"
| "envvar Iam_api_endpoint = IAM_API_ENDPOINT_ENVVAR"

fun profile_key :: "field \<Rightarrow> string" where
  "profile_key Api_key = ''api_key''"
| "profile_key Api_secret = ''api_secret''"
| "profile_key Compute_api_endpoint = ''compute_api_endpoint''"
| "profile_key Dns_api_endpoint = ''dns_api_endpoint''"
| "profile_key Storage_api_endpoint = ''storage_api_endpoint''"
| "profile_key Storage_zone = ''storage_zone''"
| "profile_key Runstatus_api_endpoint = ''runstatus_api_endpoint''"
| "profile_key Iam_api_endpoint = ''iam_api_endpoint''"

fun client_field :: "field \<Rightarrow> exoscale \<Rightarrow> string option" where
  "client_field Api_key c = Some (self_api_key c)"
| "client_field Api_secret c = Some (self_api_secret c)"
| "client_field Compute_api_endpoint c = kw_endpoint (compute c)"
| "client_field Dns_api_endpoint c = kw_endpoint (dns c)"
| "client_field Storage_api_endpoint c = kw_endpoint (storage c)"
| "client_field Storage_zone c = kw_zone (storage c)"
| "client_field Runstatus_api_endpoint c = kw_endpoint (runstatus c)"
| "client_field Iam_api_endpoint c = kw_endpoint (iam c)"

text \<open>The entry of the selected profile for a field; \<open>None\<close> when no configuration
  was loaded or the profile has no such key.\<close>

fun profile_entry :: "field \<Rightarrow> profile option \<Rightarrow> string option" where
  "profile_entry f None = None"
| "profile_entry f (Some p) = p (profile_key f)"

text \<open>
  The precedence in the specification's words: constructor argument, then profile
  entry, then environment variable, then null, a falsy value at any of the three levels
  counting as unset.
\<close>

definition spec_precedence :: "string option \<Rightarrow> string option \<Rightarrow> string option \<Rightarrow> string option" where
  "spec_precedence explicit entry env =
     (if truthy explicit then explicit
      else if truthy entry then entry
      else if truthy env then env
      else None)"

text \<open>
  The precedence the constructor computes: the environment variable is the last source
  and its value is taken as \<open>os.getenv\<close> returns it.
\<close>

definition code_precedence :: "string option \<Rightarrow> string option \<Rightarrow> string option \<Rightarrow> string option" where
  "code_precedence explicit entry env =
     (if truthy explicit then explicit
      else if truthy entry then entry
      else env)"

text \<open>
  Unset in the specification's words: a falsy value (\<open>None\<close> or the empty string) counts
  as unset at every level, the environment variable included.
\<close>

definition spec_unset :: "field \<Rightarrow> world \<Rightarrow> args \<Rightarrow> profile option \<Rightarrow> bool" where
  "spec_unset f w a popt =
     (\<not> truthy (arg f a) \<and> \<not> truthy (profile_entry f popt) \<and>
      \<not> truthy (getenv w (envvar f)))"

text \<open>
  No source supplies the field: the argument is falsy, the entry of the selected profile
  is falsy or missing, and the environment variable is not set at all.
\<close>

definition not_supplied :: "field \<Rightarrow> world \<Rightarrow> args \<Rightarrow> profile option \<Rightarrow> bool" where
  "not_supplied f w a popt =
     (\<not> truthy (arg f a) \<and> \<not> truthy (profile_entry f popt) \<and> getenv w (envvar f) = None)"

subsection \<open>Concrete surroundings used in the examples\<close>

text \<open>The constructor called with no argument: every parameter at its default.\<close>

definition no_args :: args where
  "no_args =
     \<lparr>config_file = None, profile = None, api_key = None, api_secret = None,
      compute_api_endpoint = None, dns_api_endpoint = None, storage_api_endpoint = None,
      storage_zone = None, runstatus_api_endpoint = None, iam_api_endpoint = None,
      max_retries = 3, trace = False\<rparr>"

definition profile_default :: profile where
  "profile_default =
     [''name'' \<mapsto> ''default'', ''api_key'' \<mapsto> ''K1'', ''api_secret'' \<mapsto> ''S1'',
      ''storage_zone'' \<mapsto> ''ch-gva-2'']"

definition profile_other :: profile where
  "profile_other =
     [''name'' \<mapsto> ''other'', ''api_key'' \<mapsto> ''K2'', ''api_secret'' \<mapsto> ''S2'']"

text \<open>A profile without the \<open>name\<close> key, and one without \<open>api_secret\<close>.\<close>

definition profile_nameless :: profile where
  "profile_nameless = [''api_key'' \<mapsto> ''K3'', ''api_secret'' \<mapsto> ''S3'']"

definition profile_no_secret :: profile where
  "profile_no_secret = [''name'' \<mapsto> ''default'', ''api_key'' \<mapsto> ''K4'']"

text \<open>The configuration of the specification's second testable property.\<close>

definition two_profiles :: config where
  "two_profiles =
     \<lparr>default_profile = Some ''other'',
      profiles = Some [profile_default, profile_other], other_keys = []\<rparr>"

definition one_profile :: config where
  "one_profile =
     \<lparr>default_profile = None, profiles = Some [profile_default], other_keys = []\<rparr>"

text \<open>The dictionary of an empty configuration file.\<close>

definition empty_config :: config where
  "empty_config = \<lparr>default_profile = None, profiles = None, other_keys = []\<rparr>"

definition nameless_config :: config where
  "nameless_config =
     \<lparr>default_profile = None, profiles = Some [profile_nameless, profile_other],
      other_keys = []\<rparr>"

definition no_secret_config :: config where
  "no_secret_config =
     \<lparr>default_profile = None, profiles = Some [profile_no_secret], other_keys = []\<rparr>"

text \<open>
  A machine with four configuration files under \<open>/etc/exo\<close>, no configuration file
  at the default path, and an environment that carries a key, a secret, a DNS endpoint
  and an empty Compute endpoint.
\<close>

definition env_with_key :: "string \<rightharpoonup> string" where
  "env_with_key =
     [''EXOSCALE_API_KEY'' \<mapsto> ''EK'', ''EXOSCALE_API_SECRET'' \<mapsto> ''ES'',
      ''EXOSCALE_DNS_API_ENDPOINT'' \<mapsto> ''https://dns.example'',
      ''EXOSCALE_COMPUTE_API_ENDPOINT'' \<mapsto> []]"

definition etc_files :: "string \<rightharpoonup> path_content" where
  "etc_files =
     [''/etc/exo/two.toml'' \<mapsto> Toml two_profiles,
      ''/etc/exo/empty.toml'' \<mapsto> Toml empty_config,
      ''/etc/exo/nameless.toml'' \<mapsto> Toml nameless_config,
      ''/etc/exo/nosecret.toml'' \<mapsto> Toml no_secret_config]"

definition machine :: world where
  "machine = \<lparr>getenv = env_with_key, files = etc_files, home = ''/home/u'', set_order = NKS\<rparr>"

text \<open>The same machine with a configuration file at the default path.\<close>

definition machine_with_home_config :: world where
  "machine_with_home_config =
     machine\<lparr>files := etc_files(''/home/u/config.toml'' \<mapsto> Toml one_profile)\<rparr>"

text \<open>A machine whose environment sets key and secret to the empty string.\<close>

definition machine_empty_credentials :: world where
  "machine_empty_credentials =
     \<lparr>getenv = [''EXOSCALE_API_KEY'' \<mapsto> [], ''EXOSCALE_API_SECRET'' \<mapsto> []],
      files = Map.empty, home = ''/home/u'', set_order = NKS\<rparr>"

text \<open>A machine with an empty environment.\<close>

definition machine_no_env :: world where
  "machine_no_env = machine\<lparr>getenv := Map.empty\<rparr>"

definition kw :: "string \<Rightarrow> string \<Rightarrow> string option \<Rightarrow> string option \<Rightarrow> kwargs" where
  "kw k s ep z =
     \<lparr>kw_key = k, kw_secret = s, kw_max_retries = 3, kw_trace = False,
      kw_endpoint = ep, kw_zone = z\<rparr>"

text \<open>Four constructor calls on these machines, and the clients three of them return.\<close>

definition args_two_toml :: args where
  "args_two_toml = no_args\<lparr>config_file := Some ''/etc/exo/two.toml'', api_secret := Some ''XS''\<rparr>"

definition args_empty_toml :: args where
  "args_empty_toml = no_args\<lparr>config_file := Some ''/etc/exo/empty.toml''\<rparr>"

definition args_nameless_toml :: args where
  "args_nameless_toml =
     no_args\<lparr>config_file := Some ''/etc/exo/nameless.toml'', profile := Some ''other''\<rparr>"

definition args_nosecret_toml :: args where
  "args_nosecret_toml = no_args\<lparr>config_file := Some ''/etc/exo/nosecret.toml''\<rparr>"

definition client_two :: exoscale where
  "client_two =
     \<lparr>self_api_key = ''K2'', self_api_secret = ''XS'',
      compute = kw ''K2'' ''XS'' (Some []) None,
      dns = kw ''K2'' ''XS'' (Some ''https://dns.example'') None,
      storage = kw ''K2'' ''XS'' None None,
      runstatus = kw ''K2'' ''XS'' None None,
      iam = kw ''K2'' ''XS'' None None\<rparr>"

definition client_env :: exoscale where
  "client_env =
     \<lparr>self_api_key = ''EK'', self_api_secret = ''ES'',
      compute = kw ''EK'' ''ES'' (Some []) None,
      dns = kw ''EK'' ''ES'' (Some ''https://dns.example'') None,
      storage = kw ''EK'' ''ES'' None None,
      runstatus = kw ''EK'' ''ES'' None None,
      iam = kw ''EK'' ''ES'' None None\<rparr>"

definition client_home :: exoscale where
  "client_home =
     \<lparr>self_api_key = ''K1'', self_api_secret = ''S1'',
      compute = kw ''K1'' ''S1'' (Some []) None,
      dns = kw ''K1'' ''S1'' (Some ''https://dns.example'') None,
      storage = kw ''K1'' ''S1'' None (Some ''ch-gva-2''),
      runstatus = kw ''K1'' ''S1'' None None,
      iam = kw ''K1'' ''S1'' None None\<rparr>"

section \<open>The API client base class and resources (exoscale/api/__init__.py)\<close>

subsection \<open>Sessions and the \<open>API\<close> class\<close>

text \<open>
  A \<open>requests.Session\<close> is a mutable object; what the class reads and writes of it are
  the transport adapters mounted on it, by URL prefix.  An adapter is determined by the
  \<open>Retry\<close> policy it is built from.  Session objects live in a store, by address, so
  that two clients holding the same address hold the same object.
\<close>

record retry =
  total :: int
  backoff_factor :: rat
  status_forcelist :: "int list option"

type_synonym session = "string \<rightharpoonup> retry"

type_synonym sessions = "nat \<Rightarrow> session"

text \<open>
  The class body evaluates \<open>requests.Session()\<close> once, when the module is imported, and
  that one object is the default of the \<open>session\<close> field; \<open>API_default_session\<close> is its
  address.
\<close>

definition API_default_session :: nat where
  "API_default_session = 0"

text \<open>What the interpreter and the installed packages report for the user agent.\<close>

record platform =
  python_exoscale_version :: string
  cs_version :: string
  requests_user_agent :: string
  python_implementation :: string
  python_version :: string
  os_name :: string
  os_version :: string

record api =
  API_endpoint :: string
  API_key :: string
  API_secret :: string
  API_trace :: bool
  API_session :: nat
  API_max_retries :: int
  API_retry_backoff_factor :: rat
  API_user_agent :: string

text \<open>
  The arguments of the generated initialiser: \<open>endpoint\<close>, \<open>key\<close> and \<open>secret\<close> are
  required, the other four have defaults and are \<open>None\<close> when the caller leaves them
  out.
\<close>

record api_args =
  arg_endpoint :: string
  arg_key :: string
  arg_secret :: string
  arg_trace :: "bool option"
  arg_session :: "nat option"
  arg_max_retries :: "int option"
  arg_retry_backoff_factor :: "rat option"

definition user_agent :: "platform \<Rightarrow> string" where
  "user_agent pf =
     ''Exoscale-Python/'' @ python_exoscale_version pf @ '' '' @
     ''cs/'' @ cs_version pf @ '' '' @
     requests_user_agent pf @ '' '' @
     python_implementation pf @ ''/'' @ python_version pf @ '' '' @
     os_name pf @ ''/'' @ os_version pf"

text \<open>\<open>session.mount(prefix, adapter)\<close> on the session at address \<open>r\<close>.\<close>

definition mount :: "nat \<Rightarrow> string \<Rightarrow> retry \<Rightarrow> sessions \<Rightarrow> sessions" where
  "mount r prefix adapter st = st(r := (st r)(prefix \<mapsto> adapter))"

text \<open>
  The generated initialiser followed by \<open>__attrs_post_init__\<close>: the fields are set from
  the arguments or their defaults, the user agent is computed, and one adapter is mounted
  on the session for both URL schemes.  The result is the new client and the store.
\<close>

definition API_init :: "platform \<Rightarrow> api_args \<Rightarrow> sessions \<Rightarrow> api \<times> sessions" where
  "API_init pf x st =
     (let self = \<lparr>API_endpoint = arg_endpoint x,
                  API_key = arg_key x,
                  API_secret = arg_secret x,
                  API_trace = (case arg_trace x of None \<Rightarrow> False | Some t \<Rightarrow> t),
                  API_session =
                    (case arg_session x of None \<Rightarrow> API_default_session | Some s \<Rightarrow> s),
                  API_max_retries = (case arg_max_retries x of None \<Rightarrow> 3 | Some m \<Rightarrow> m),
                  API_retry_backoff_factor =
                    (case arg_retry_backoff_factor x of None \<Rightarrow> 3 / 10 | Some b \<Rightarrow> b),
                  API_user_agent = user_agent pf\<rparr>;
          adapter = \<lparr>total = API_max_retries self,
                     backoff_factor = API_retry_backoff_factor self,
                     status_forcelist = None\<rparr>
      in (self, mount (API_session self) ''https://'' adapter
                  (mount (API_session self) ''http://'' adapter st)))"

subsection \<open>The family clients\<close>

text \<open>
  Modelled from the spec: the five family client classes (\<open>api/compute.py\<close>,
  \<open>api/dns.py\<close>, \<open>api/storage.py\<close>, \<open>api/runstatus.py\<close>, \<open>api/iam.py\<close>) are not among the
  sources.  By sections 3 and 4.4 of the specification each is a dispatcher built from the
  keyword arguments the top-level constructor passes: the shared key and secret, the
  family's endpoint override or else a compiled-in default, and the shared retry and
  trace settings; none is given a session.  The compiled-in default endpoint is a
  parameter.
\<close>

definition family_client :: "platform \<Rightarrow> string \<Rightarrow> kwargs \<Rightarrow> sessions \<Rightarrow> api \<times> sessions" where
  "family_client pf default_endpoint k st =
     API_init pf
       \<lparr>arg_endpoint = (case kw_endpoint k of None \<Rightarrow> default_endpoint | Some e \<Rightarrow> e),
        arg_key = kw_key k,
        arg_secret = kw_secret k,
        arg_trace = Some (kw_trace k),
        arg_session = None,
        arg_max_retries = Some (kw_max_retries k),
        arg_retry_backoff_factor = None\<rparr> st"

text \<open>The compiled-in default endpoints of the five families.\<close>

record endpoints =
  compute_default :: string
  dns_default :: string
  storage_default :: string
  runstatus_default :: string
  iam_default :: string

text \<open>
  Lines 178 to 220 of the top-level constructor: the five family clients are
  constructed one after the other, in this order, on the same store.
\<close>

definition family_clients :: "platform \<Rightarrow> endpoints \<Rightarrow> exoscale \<Rightarrow> sessions \<Rightarrow> api list \<times> sessions" where
  "family_clients pf eps c st0 =
     (let (c1, st1) = family_client pf (compute_default eps) (compute c) st0;
          (c2, st2) = family_client pf (dns_default eps) (dns c) st1;
          (c3, st3) = family_client pf (storage_default eps) (storage c) st2;
          (c4, st4) = family_client pf (runstatus_default eps) (runstatus c) st3;
          (c5, st5) = family_client pf (iam_default eps) (iam c) st4
      in ([c1, c2, c3, c4, c5], st5))"

subsection \<open>\<open>API.send\<close> (lines 76 to 116)\<close>

text \<open>
  A prepared request and a response, with the attributes that \<open>send\<close> reads.  The headers
  are kept as the text that \<open>str.format\<close> prints for them; the standard error stream is
  the list of the lines printed to it.
\<close>

record prepared_request =
  req_method :: string
  req_url :: string
  req_headers :: string
  req_body :: "string option"

record response =
  res_status_code :: nat
  res_reason :: string
  res_headers :: string
  res_text :: string

text \<open>\<open>str\<close> of a non-negative integer.\<close>

definition digit :: "nat \<Rightarrow> char" where
  "digit d = ''0123456789'' ! d"

function str_nat :: "nat \<Rightarrow> string" where
  "str_nat n = (if n < 10 then [digit n] else str_nat (n div 10) @ [digit (n mod 10)])"
  by pat_completeness auto
termination
  by (relation "measure id") auto

text \<open>The lines printed before the request is sent, and after the response arrived.\<close>

definition request_trace :: "prepared_request \<Rightarrow> string list" where
  "request_trace req =
     [''>>> '' @ req_method req @ '' '' @ req_url req,
      ''    headers:'' @ req_headers req] @
     (if truthy (req_body req) then [''    body:'' @ py_str (req_body req)] else [])"

definition response_trace :: "response \<Rightarrow> string list" where
  "response_trace res =
     [''<<< '' @ str_nat (res_status_code res) @ '' '' @ res_reason res,
      ''    headers:'' @ res_headers res,
      ''    body:'' @ res_text res]"

text \<open>
  \<open>send\<close>: \<open>prepare\<close> stands for \<open>requests.Request(**kwargs).prepare()\<close> and \<open>session_send\<close>
  for \<open>self.session.send\<close>; either may raise (\<open>Inl\<close>).  The result is what the call
  returns or raises, and the standard error stream afterwards.
\<close>

definition send ::
  "api \<Rightarrow> ('k \<Rightarrow> 'e + prepared_request) \<Rightarrow> (prepared_request \<Rightarrow> 'e + response) \<Rightarrow>
   'k \<Rightarrow> string list \<Rightarrow> ('e + response) \<times> string list" where
  "send self prepare session_send kwargs stderr =
     (case prepare kwargs of
        Inl e \<Rightarrow> (Inl e, stderr)
      | Inr req \<Rightarrow>
          (let stderr1 = (if API_trace self then stderr @ request_trace req else stderr)
           in case session_send req of
                Inl e \<Rightarrow> (Inl e, stderr1)
              | Inr res \<Rightarrow>
                  (Inr res,
                   if API_trace self then stderr1 @ response_trace res else stderr1)))"

subsection \<open>\<open>Resource._reset\<close> (lines 127 to 133)\<close>

text \<open>
  Attribute values, and objects in a heap.  An instance of a \<open>Resource\<close> class (or of any
  other class with declared fields) is the list of its declared fields, in declaration
  order, each with its value.  A reference to such an object is its address (\<open>Ref\<close>), so
  two references to the same object are the same address.  Lists and dictionaries with
  string keys (the parsed API responses) are values.
\<close>

datatype pyval =
    PNone | PStr string | PInt int | PBool bool
  | Ref nat
  | PList "pyval list"
  | PDict "(string \<times> pyval) list"

datatype exception = RecursionError

type_synonym fields = "(string \<times> pyval) list"

type_synonym heap = "nat \<Rightarrow> fields"

text \<open>
  \<open>asdict\<close> is called with its defaults, so it recurses: the value of a field that is
  itself an instance with declared fields is replaced by its own \<open>asdict\<close>, and lists and
  dictionaries are traversed for such instances.  Every level of nesting is a nested
  call; the first argument is the number of nested calls the interpreter still allows
  (its recursion limit), and the call that exceeds it raises \<open>RecursionError\<close>.
  \<open>asdict_anything\<close> converts one value, \<open>asdict_fields\<close> the fields of an instance or the
  items of a dictionary, \<open>asdict_items\<close> the elements of a list.
\<close>

fun asdict_anything :: "nat \<Rightarrow> heap \<Rightarrow> pyval \<Rightarrow> exception + pyval"
  and asdict_fields :: "nat \<Rightarrow> heap \<Rightarrow> fields \<Rightarrow> exception + fields"
  and asdict_items :: "nat \<Rightarrow> heap \<Rightarrow> pyval list \<Rightarrow> exception + pyval list" where
  "asdict_anything 0 h (Ref r) = Inl RecursionError"
| "asdict_anything (Suc n) h (Ref r) =
     (case asdict_fields n h (h r) of Inl e \<Rightarrow> Inl e | Inr d \<Rightarrow> Inr (PDict d))"
| "asdict_anything 0 h (PList vs) = Inl RecursionError"
| "asdict_anything (Suc n) h (PList vs) =
     (case asdict_items n h vs of Inl e \<Rightarrow> Inl e | Inr ws \<Rightarrow> Inr (PList ws))"
| "asdict_anything 0 h (PDict kvs) = Inl RecursionError"
| "asdict_anything (Suc n) h (PDict kvs) =
     (case asdict_fields n h kvs of Inl e \<Rightarrow> Inl e | Inr d \<Rightarrow> Inr (PDict d))"
| "asdict_anything n h PNone = Inr PNone"
| "asdict_anything n h (PStr s) = Inr (PStr s)"
| "asdict_anything n h (PInt i) = Inr (PInt i)"
| "asdict_anything n h (PBool b) = Inr (PBool b)"
| "asdict_fields n h [] = Inr []"
| "asdict_fields n h ((k, v) # fs) =
     (case asdict_anything n h v of
        Inl e \<Rightarrow> Inl e
      | Inr v' \<Rightarrow>
          (case asdict_fields n h fs of Inl e \<Rightarrow> Inl e | Inr d \<Rightarrow> Inr ((k, v') # d)))"
| "asdict_items n h [] = Inr []"
| "asdict_items n h (v # vs) =
     (case asdict_anything n h v of
        Inl e \<Rightarrow> Inl e
      | Inr v' \<Rightarrow>
          (case asdict_items n h vs of Inl e \<Rightarrow> Inl e | Inr ws \<Rightarrow> Inr (v' # ws)))"

text \<open>\<open>asdict(self)\<close>: the dictionary of the declared fields of the instance at address
  \<open>self\<close>, in declaration order, with the converted values.\<close>

definition asdict :: "nat \<Rightarrow> heap \<Rightarrow> nat \<Rightarrow> exception + fields" where
  "asdict limit h self = asdict_fields limit h (h self)"

text \<open>\<open>getattr(obj, k)\<close>; \<open>None\<close> stands for \<open>AttributeError\<close>.\<close>

definition getattr :: "heap \<Rightarrow> nat \<Rightarrow> string \<Rightarrow> pyval option" where
  "getattr h r k = map_of (h r) k"

text \<open>Assignment to the field \<open>k\<close> of an instance.\<close>

fun assign :: "string \<Rightarrow> pyval \<Rightarrow> fields \<Rightarrow> fields" where
  "assign k v [] = []"
| "assign k v ((k', v') # fs) = (if k' = k then (k', v) # fs else (k', v') # assign k v fs)"

text \<open>\<open>setattr(obj, k, v)\<close> on the object at address \<open>r\<close>.\<close>

definition setattr :: "heap \<Rightarrow> nat \<Rightarrow> string \<Rightarrow> pyval \<Rightarrow> heap" where
  "setattr h r k v = h(r := assign k v (h r))"

text \<open>The loop \<open>for k in ...: setattr(self, k, None)\<close> over the keys of the dictionary.\<close>

fun reset_loop :: "string list \<Rightarrow> nat \<Rightarrow> heap \<Rightarrow> heap" where
  "reset_loop [] self h = h"
| "reset_loop (k # ks) self h = reset_loop ks self (setattr h self k PNone)"

text \<open>
  \<open>_reset\<close>: \<open>asdict(self)\<close> is evaluated first; when it raises, the exception leaves the
  method before any attribute is assigned and the heap is as it was.  The result is what
  the call returns or raises, and the heap afterwards.
\<close>

definition Resource_reset :: "nat \<Rightarrow> heap \<Rightarrow> nat \<Rightarrow> (exception + unit) \<times> heap" where
  "Resource_reset limit h self =
     (case asdict limit h self of
        Inl e \<Rightarrow> (Inl e, h)
      | Inr d \<Rightarrow> (Inr (), reset_loop (map fst d) self h))"

subsection \<open>Concrete requests, resources and platforms used in the examples\<close>

definition example_platform :: platform where
  "example_platform =
     \<lparr>python_exoscale_version = ''0.8.0'', cs_version = ''3.0.0'',
      requests_user_agent = ''python-requests/2.28.1'',
      python_implementation = ''CPython'', python_version = ''3.10.4'',
      os_name = ''Linux'', os_version = ''5.15''\<rparr>"

definition example_endpoints :: endpoints where
  "example_endpoints =
     \<lparr>compute_default = ''https://compute.example'', dns_default = ''https://dns.example'',
      storage_default = ''https://storage.example'',
      runstatus_default = ''https://runstatus.example'', iam_default = ''https://iam.example''\<rparr>"

text \<open>A store in which no session has an adapter mounted.\<close>

definition no_adapters :: sessions where
  "no_adapters r = Map.empty"

text \<open>A client with tracing switched on.\<close>

definition traced_api :: api where
  "traced_api =
     \<lparr>API_endpoint = ''https://api.example/v1'', API_key = ''EK'', API_secret = ''ES'',
      API_trace = True, API_session = 0, API_max_retries = 3,
      API_retry_backoff_factor = 3 / 10, API_user_agent = user_agent example_platform\<rparr>"

definition get_request :: prepared_request where
  "get_request =
     \<lparr>req_method = ''GET'', req_url = ''https://api.example/v1/zones'',
      req_headers = ''{}'', req_body = None\<rparr>"

definition ok_response :: response where
  "ok_response =
     \<lparr>res_status_code = 200, res_reason = ''OK'', res_headers = ''{}'', res_text = ''[]''\<rparr>"

text \<open>A preparation that succeeds, a session that answers, and a session whose
  connection is refused.\<close>

definition prepare_get :: "unit \<Rightarrow> string + prepared_request" where
  "prepare_get k = Inr get_request"

definition serve_ok :: "prepared_request \<Rightarrow> string + response" where
  "serve_ok req = Inr ok_response"

definition refuse_connection :: "prepared_request \<Rightarrow> string + response" where
  "refuse_connection req = Inl ''ConnectionError''"

text \<open>A heap with a zone resource at address 1 and an instance resource at address 2
  that refers to it.\<close>

definition zone_heap :: heap where
  "zone_heap =
     (\<lambda>r. [])(1 := [(''res'', PDict [(''id'', PInt 7)]), (''id'', PInt 7),
                     (''name'', PStr ''ch-gva-2'')],
              2 := [(''res'', PNone), (''zone'', Ref 1)])"

text \<open>A heap with one resource, at address 1, whose \<open>res\<close> attribute is the resource
  itself (\<open>r = Resource(res=None); r.res = r\<close>).\<close>

definition cyclic_heap :: heap where
  "cyclic_heap = (\<lambda>r. [])(1 := [(''res'', Ref 1)])"

text \<open>The client that holds the empty string as key and as secret.\<close>

definition client_empty :: exoscale where
  "client_empty =
     \<lparr>self_api_key = [], self_api_secret = [],
      compute = kw [] [] None None, dns = kw [] [] None None,
      storage = kw [] [] None None, runstatus = kw [] [] None None,
      iam = kw [] [] None None\<rparr>"

section \<open>Properties of the configuration resolution\<close>

lemmas envvar_defs = API_KEY_ENVVAR_def API_SECRET_ENVVAR_def COMPUTE_API_ENDPOINT_ENVVAR_def
  DNS_API_ENDPOINT_ENVVAR_def RUNSTATUS_API_ENDPOINT_ENVVAR_def STORAGE_API_ENDPOINT_ENVVAR_def
  IAM_API_ENDPOINT_ENVVAR_def STORAGE_ZONE_ENVVAR_def CONFIG_FILE_ENVVAR_def

lemmas run_defs = Exoscale_init_def resolve_def select_profile_def load_config_def toml_load_def
  get_profile_def merge_profile_def with_profile_def env_fallback_def subscript_unless_def
  get_unless_def if_else_def family_kwargs_def DEFAULT_CONFIG_FILE_def path_join_def
  missing_key_message_def dq_def

lemmas example_defs = no_args_def profile_default_def profile_other_def profile_nameless_def
  profile_no_secret_def two_profiles_def one_profile_def empty_config_def nameless_config_def
  no_secret_config_def env_with_key_def etc_files_def machine_def machine_with_home_config_def
  machine_empty_credentials_def machine_no_env_def kw_def args_two_toml_def args_empty_toml_def
  args_nameless_toml_def args_nosecret_toml_def client_two_def client_env_def client_home_def

subsection \<open>The stages of the constructor\<close>

lemma env_fallback_arg:
  "arg f (env_fallback w a) = if_else (arg f a) (getenv w (envvar f))"
  by (cases f) (simp_all add: env_fallback_def)

lemma subscript_unless_Inr:
  "subscript_unless p k x = Inr v \<Longrightarrow> v = (if truthy x then x else p k)"
  by (simp add: subscript_unless_def split: if_splits option.splits)

lemma merge_profile_Inr:
  assumes "merge_profile p a = Inr a'"
  obtains k s where "subscript_unless p ''api_key'' (api_key a) = Inr k"
    and "subscript_unless p ''api_secret'' (api_secret a) = Inr s"
    and "a' = with_profile p k s a"
proof (cases "subscript_unless p ''api_key'' (api_key a)")
  case (Inl e)
  with assms show ?thesis by (simp add: merge_profile_def)
next
  case k: (Inr k)
  show ?thesis
  proof (cases "subscript_unless p ''api_secret'' (api_secret a)")
    case (Inl e)
    with assms k show ?thesis by (simp add: merge_profile_def)
  next
    case (Inr s)
    with assms k that show ?thesis by (simp add: merge_profile_def)
  qed
qed

lemma merge_profile_arg:
  assumes "merge_profile p a = Inr a'"
  shows "arg f a' = (if truthy (arg f a) then arg f a else p (profile_key f))"
proof -
  from assms obtain k s where k: "subscript_unless p ''api_key'' (api_key a) = Inr k"
    and s: "subscript_unless p ''api_secret'' (api_secret a) = Inr s"
    and a': "a' = with_profile p k s a"
    by (rule merge_profile_Inr)
  show ?thesis
    using subscript_unless_Inr [OF k] subscript_unless_Inr [OF s]
    by (cases f) (simp_all add: a' with_profile_def get_unless_def)
qed

lemma merge_profile_total:
  assumes "p ''api_key'' \<noteq> None" and "p ''api_secret'' \<noteq> None"
  shows "\<exists>a'. merge_profile p a = Inr a'"
  using assms by (auto simp: merge_profile_def subscript_unless_def)

lemma resolve_cases:
  assumes "resolve w a = Inr r"
  obtains "select_profile w a = Inr None" and "r = env_fallback w a"
  | p a' where "select_profile w a = Inr (Some p)" and "merge_profile p a = Inr a'"
      and "r = env_fallback w a'"
proof (cases "select_profile w a")
  case (Inl e)
  with assms show ?thesis by (simp add: resolve_def)
next
  case (Inr popt)
  show ?thesis
  proof (cases popt)
    case None
    with Inr assms that(1) show ?thesis by (simp add: resolve_def)
  next
    case (Some p)
    show ?thesis
    proof (cases "merge_profile p a")
      case (Inl e)
      with Inr Some assms show ?thesis by (simp add: resolve_def)
    next
      case m: (Inr a')
      with Inr Some assms that(2) show ?thesis by (simp add: resolve_def)
    qed
  qed
qed

lemma resolve_arg:
  assumes "resolve w a = Inr r" and "select_profile w a = Inr popt"
  shows "arg f r = code_precedence (arg f a) (profile_entry f popt) (getenv w (envvar f))"
  using assms(1)
proof (cases rule: resolve_cases)
  case 1
  with assms(2) show ?thesis
    by (simp add: env_fallback_arg code_precedence_def if_else_def)
next
  case (2 p a')
  with assms(2) have popt: "popt = Some p" by simp
  show ?thesis
    using merge_profile_arg [OF 2(2), of f]
    by (simp add: popt 2(3) env_fallback_arg code_precedence_def if_else_def)
qed

lemma resolve_select:
  assumes "resolve w a = Inr r"
  obtains popt where "select_profile w a = Inr popt"
  using assms by (cases rule: resolve_cases) auto

lemma resolve_settings:
  assumes "resolve w a = Inr r"
  shows "max_retries r = max_retries a \<and> trace r = trace a"
  using assms
proof (cases rule: resolve_cases)
  case 1
  then show ?thesis by (simp add: env_fallback_def)
next
  case (2 p a')
  from 2(2) obtain k s where "a' = with_profile p k s a"
    by (rule merge_profile_Inr)
  with 2(3) show ?thesis by (simp add: env_fallback_def with_profile_def)
qed

lemma Exoscale_init_Inr:
  assumes "Exoscale_init w a = Inr c"
  obtains r k s where "resolve w a = Inr r" and "api_key r = Some k" and "api_secret r = Some s"
    and "c = \<lparr>self_api_key = k, self_api_secret = s,
                    compute = family_kwargs k s r (compute_api_endpoint r) None,
                    dns = family_kwargs k s r (dns_api_endpoint r) None,
                    storage = family_kwargs k s r (storage_api_endpoint r) (storage_zone r),
                    runstatus = family_kwargs k s r (runstatus_api_endpoint r) None,
                    iam = family_kwargs k s r (iam_api_endpoint r) None\<rparr>"
proof (cases "resolve w a")
  case (Inl e)
  with assms show ?thesis by (simp add: Exoscale_init_def)
next
  case (Inr r)
  show ?thesis
  proof (cases "api_key r")
    case None
    with Inr assms show ?thesis by (simp add: Exoscale_init_def)
  next
    case k: (Some k)
    show ?thesis
    proof (cases "api_secret r")
      case None
      with Inr k assms show ?thesis by (simp add: Exoscale_init_def)
    next
      case (Some s)
      with Inr k assms that show ?thesis by (simp add: Exoscale_init_def)
    qed
  qed
qed

lemma Exoscale_init_client_field:
  assumes "Exoscale_init w a = Inr c" and "resolve w a = Inr r"
  shows "client_field f c = arg f r"
  using assms(1)
proof (cases rule: Exoscale_init_Inr)
  case (1 r' k s)
  with assms(2) have "r' = r" by simp
  with 1 show ?thesis by (cases f) (simp_all add: family_kwargs_def)
qed

lemma Exoscale_init_kwargs:
  assumes "Exoscale_init w a = Inr c"
    and "k \<in> {compute c, dns c, storage c, runstatus c, iam c}"
  shows "kw_key k = self_api_key c \<and> kw_secret k = self_api_secret c \<and>
         kw_max_retries k = max_retries a \<and> kw_trace k = trace a"
  using assms(1)
proof (cases rule: Exoscale_init_Inr)
  case (1 r ky s)
  from resolve_settings [OF 1(1)] assms(2) show ?thesis
    by (auto simp: 1(4) family_kwargs_def)
qed

lemma set_keys_in_order: "set (keys_in_order ord) = {''name'', ''api_key'', ''api_secret''}"
  by (cases ord) auto

lemma check_keys_missing:
  assumes "\<exists>k\<in>set ks. p k = None"
  shows "\<exists>k\<in>set ks. p k = None \<and>
           check_keys ks p = Inl (ConfigurationError (missing_key_message k))"
  using assms by (induction ks) auto

lemma check_keys_passed:
  assumes "check_keys ks p = Inr u" and "k \<in> set ks"
  shows "p k \<noteq> None"
  using assms by (induction ks) (auto split: if_splits)

lemma select_profile_Some:
  assumes "select_profile w a = Inr (Some p)"
  shows "p ''name'' \<noteq> None \<and> p ''api_key'' \<noteq> None \<and> p ''api_secret'' \<noteq> None"
proof -
  from assms obtain u where "check_keys (keys_in_order (set_order w)) p = Inr u"
    by (auto simp: select_profile_def split: sum.splits option.splits)
  from check_keys_passed [OF this] show ?thesis
    by (simp add: set_keys_in_order)
qed

lemma select_profile_resolve:
  assumes "select_profile w a = Inr popt"
  shows "\<exists>r. resolve w a = Inr r"
proof (cases popt)
  case None
  with assms show ?thesis by (simp add: resolve_def)
next
  case (Some p)
  with assms select_profile_Some [of w a p]
  obtain a' where "merge_profile p a = Inr a'"
    using merge_profile_total [of p a] by auto
  with assms Some show ?thesis by (simp add: resolve_def)
qed

lemma load_config_no_file:
  assumes "\<not> truthy (config_file a)" and "\<not> truthy (getenv w CONFIG_FILE_ENVVAR)"
    and "files w (DEFAULT_CONFIG_FILE w) = None"
  shows "load_config w a = Inr None"
  using assms by (auto simp: load_config_def if_else_def split: option.splits)


subsection \<open>Precedence of the sources\<close>

text \<open>
  C1, as amended.  For every resolvable field (\<open>api_key\<close>, \<open>api_secret\<close>, the five
  endpoints, \<open>storage_zone\<close>) the value the constructed client holds is the constructor
  argument when that is truthy; otherwise the entry of the selected profile when a
  configuration was loaded and the entry is truthy; otherwise the value of the
  environment variable exactly as \<open>os.getenv\<close> returns it: null when the variable is
  not set, and the empty string when it is set to the empty string.  A falsy argument
  or profile entry falls through to the next source; the environment variable is the
  last source and is not filtered.
\<close>

theorem client_field_precedence:
  assumes "Exoscale_init w a = Inr c"
  shows "\<exists>popt. select_profile w a = Inr popt \<and>
           (\<forall>f. client_field f c =
                  code_precedence (arg f a) (profile_entry f popt) (getenv w (envvar f)))"
proof -
  from assms obtain r where r: "resolve w a = Inr r"
    by (cases rule: Exoscale_init_Inr)
  then obtain popt where s: "select_profile w a = Inr popt"
    by (rule resolve_select)
  have "client_field f c =
          code_precedence (arg f a) (profile_entry f popt) (getenv w (envvar f))" for f
    using Exoscale_init_client_field [OF assms r, of f] resolve_arg [OF r s, of f] by simp
  with s show ?thesis by blast
qed

text \<open>
  Witness for C1: on \<open>machine\<close>, with the file of two profiles and an explicit secret, the
  constructor returns \<open>client_two\<close>: the key comes from the profile \<open>other\<close> although the
  environment has one, the secret from the argument, the DNS endpoint from the
  environment.
\<close>

theorem client_field_precedence_witness:
  "Exoscale_init machine args_two_toml = Inr client_two \<and>
   (\<exists>popt. select_profile machine args_two_toml = Inr popt \<and>
      (\<forall>f. client_field f client_two =
             code_precedence (arg f args_two_toml) (profile_entry f popt)
               (getenv machine (envvar f))))"
proof -
  have h: "Exoscale_init machine args_two_toml = Inr client_two"
    by (simp add: run_defs example_defs envvar_defs)
  show ?thesis
    using h client_field_precedence [OF h] by simp
qed

text \<open>
  Counterexample to C1 as stated: with no configuration file and no argument, and
  \<open>EXOSCALE_COMPUTE_API_ENDPOINT\<close> set to the empty string, the specification's precedence
  gives null for the Compute endpoint (the falsy environment value counts as unset), but
  the client is constructed with the empty string as its Compute endpoint.
\<close>

theorem precedence_empty_environment_counterexample:
  "Exoscale_init machine no_args = Inr client_env \<and>
   select_profile machine no_args = Inr None \<and>
   client_field Compute_api_endpoint client_env = Some [] \<and>
   spec_precedence (arg Compute_api_endpoint no_args) (profile_entry Compute_api_endpoint None)
     (getenv machine (envvar Compute_api_endpoint)) = None"
  by (simp add: run_defs example_defs envvar_defs spec_precedence_def)

subsection \<open>Profile selection\<close>

text \<open>
  When every profile of the file has a \<open>name\<close>, the lookup by name returns the first
  profile of that name, or the configuration error when there is none.
\<close>

lemma find_profile_named:
  assumes "\<forall>q\<in>set ps. q ''name'' \<noteq> None"
  shows "find_profile ps (Some n) =
           (case find (\<lambda>q. q ''name'' = Some n) ps of
              None \<Rightarrow> Inl (ConfigurationError (''profile '' @ [dq] @ n @ [dq] @ '' not found''))
            | Some q \<Rightarrow> Inr q)"
  using assms by (induction ps) (auto split: option.splits)

text \<open>
  A truthy explicit name is looked up, also when the file has a \<open>default_profile\<close>;
  otherwise the \<open>default_profile\<close> of the file is looked up; otherwise the first profile
  is taken.
\<close>

lemma get_profile_selection:
  assumes "profiles cfg = Some ps" and "ps \<noteq> []"
  shows "get_profile cfg prof =
           (if truthy prof then find_profile ps prof
            else if default_profile cfg \<noteq> None then find_profile ps (default_profile cfg)
            else Inr (hd ps))"
  using assms by (cases ps) (auto simp: get_profile_def)

text \<open>
  C2, at an input where the code departs from it.  The file \<open>nameless.toml\<close> holds a
  profile without \<open>name\<close> followed by the profile \<open>other\<close>.  Looking up \<open>other\<close>, which the
  file has, and looking up \<open>absent\<close>, which it has not, both end in the \<open>KeyError\<close> of
  \<open>a["name"]\<close> on the first profile: neither is the profile selected nor is
  \<open>ConfigurationError\<close> raised, and the constructor fails with the same \<open>KeyError\<close>.
\<close>

theorem nameless_profile_KeyError:
  "get_profile nameless_config (Some ''other'') = Inl (KeyError ''name'') \<and>
   get_profile nameless_config (Some ''absent'') = Inl (KeyError ''name'') \<and>
   Exoscale_init machine args_nameless_toml = Inl (KeyError ''name'')"
  by (simp add: run_defs example_defs envvar_defs)

subsection \<open>Missing credentials\<close>

lemma code_precedence_None:
  "code_precedence e p v = None \<longleftrightarrow> \<not> truthy e \<and> \<not> truthy p \<and> v = None"
  by (cases e; cases p) (auto simp: code_precedence_def)

text \<open>
  C3, as amended.  When the profile stage has succeeded (no configuration, or a
  selected profile with its required keys): if no source supplies \<open>api_key\<close> or no source
  supplies \<open>api_secret\<close> (the argument is falsy, the profile entry is falsy, and the
  environment variable is not set at all), the constructor raises \<open>ConfigurationError\<close>
  and returns no client; in every other case, also when key or secret come from an
  environment variable set to the empty string, it returns a client.
\<close>

theorem missing_credentials_ConfigurationError:
  assumes "select_profile w a = Inr popt"
  shows "(not_supplied Api_key w a popt \<or> not_supplied Api_secret w a popt \<longrightarrow>
            Exoscale_init w a = Inl (ConfigurationError ''missing API key/secret'')) \<and>
         (\<not> (not_supplied Api_key w a popt \<or> not_supplied Api_secret w a popt) \<longrightarrow>
            (\<exists>c. Exoscale_init w a = Inr c))"
proof -
  from select_profile_resolve [OF assms] obtain r where r: "resolve w a = Inr r" ..
  have n: "arg f r = None \<longleftrightarrow> not_supplied f w a popt" for f
    using resolve_arg [OF r assms, of f]
    by (simp add: not_supplied_def code_precedence_None)
  from n [of Api_key] n [of Api_secret]
  have k: "api_key r = None \<longleftrightarrow> not_supplied Api_key w a popt"
    and s: "api_secret r = None \<longleftrightarrow> not_supplied Api_secret w a popt"
    by simp_all
  show ?thesis
  proof (intro conjI impI)
    assume "not_supplied Api_key w a popt \<or> not_supplied Api_secret w a popt"
    with k s have "api_key r = None \<or> api_secret r = None" by simp
    with r show "Exoscale_init w a = Inl (ConfigurationError ''missing API key/secret'')"
      by (auto simp: Exoscale_init_def split: option.splits)
  next
    assume "\<not> (not_supplied Api_key w a popt \<or> not_supplied Api_secret w a popt)"
    with k s obtain ky sc where "api_key r = Some ky" "api_secret r = Some sc" by auto
    with r show "\<exists>c. Exoscale_init w a = Inr c"
      by (simp add: Exoscale_init_def)
  qed
qed

text \<open>
  Witness for C3: with no configuration file, no argument and an empty environment the
  constructor raises; on \<open>machine\<close>, whose environment holds key and secret, it returns.
\<close>

theorem missing_credentials_ConfigurationError_witness:
  "select_profile machine_no_env no_args = Inr None \<and>
   not_supplied Api_key machine_no_env no_args None \<and>
   Exoscale_init machine_no_env no_args = Inl (ConfigurationError ''missing API key/secret'') \<and>
   select_profile machine no_args = Inr None \<and>
   \<not> not_supplied Api_key machine no_args None \<and>
   \<not> not_supplied Api_secret machine no_args None \<and>
   (\<exists>c. Exoscale_init machine no_args = Inr c)"
proof -
  have s: "select_profile machine_no_env no_args = Inr None"
    by (simp add: run_defs example_defs envvar_defs)
  have u: "not_supplied Api_key machine_no_env no_args None"
    by (simp add: not_supplied_def example_defs)
  have s': "select_profile machine no_args = Inr None"
    by (simp add: run_defs example_defs envvar_defs)
  have u': "\<not> not_supplied Api_key machine no_args None"
    "\<not> not_supplied Api_secret machine no_args None"
    by (simp_all add: not_supplied_def example_defs envvar_defs)
  show ?thesis
    using s u s' u' missing_credentials_ConfigurationError [OF s]
      missing_credentials_ConfigurationError [OF s']
    by simp
qed

text \<open>
  Counterexample to C3 as stated: on the machine whose environment sets
  \<open>EXOSCALE_API_KEY\<close> and \<open>EXOSCALE_API_SECRET\<close> to the empty string, with no configuration
  file and no argument, key and secret are unset at every level in the specification's
  sense (a falsy value counts as unset), yet no error is raised and a client holding the
  empty strings is returned.
\<close>

theorem missing_credentials_empty_environment_counterexample:
  "select_profile machine_empty_credentials no_args = Inr None \<and>
   spec_unset Api_key machine_empty_credentials no_args None \<and>
   spec_unset Api_secret machine_empty_credentials no_args None \<and>
   Exoscale_init machine_empty_credentials no_args = Inr client_empty"
  by (simp add: run_defs example_defs envvar_defs spec_unset_def client_empty_def)

subsection \<open>A configuration without profiles\<close>

text \<open>
  When the configuration that the loading statements leave in \<open>self._config\<close> has no
  \<open>profiles\<close> entry or an empty list, the constructor raises \<open>ConfigurationError\<close>,
  whatever the environment holds.
\<close>

lemma no_profiles_ConfigurationError:
  assumes "load_config w a = Inr (Some cfg)"
    and "profiles cfg = None \<or> profiles cfg = Some []"
  shows "Exoscale_init w a = Inl (ConfigurationError ''no profiles configured'')"
proof -
  from assms(2)
  have "get_profile cfg (profile a) = Inl (ConfigurationError ''no profiles configured'')"
    by (auto simp: get_profile_def)
  with assms(1) show ?thesis
    by (simp add: Exoscale_init_def resolve_def select_profile_def)
qed

text \<open>
  C4, at an input where the code departs from it.  The file \<open>empty.toml\<close> is given
  explicitly and is loaded; it has no \<open>profiles\<close> entry.  On the machine that also has a
  configuration file at the default path, the constructor raises nothing and returns a
  client with the credentials of that other file.  On the machine without it, the same
  call raises the configuration error.
\<close>

theorem empty_config_file_no_error:
  "files machine_with_home_config ''/etc/exo/empty.toml'' = Some (Toml empty_config) \<and>
   profiles empty_config = None \<and>
   Exoscale_init machine_with_home_config args_empty_toml = Inr client_home \<and>
   Exoscale_init machine args_empty_toml = Inl (ConfigurationError ''no profiles configured'')"
  by (simp add: run_defs example_defs envvar_defs)

subsection \<open>Required keys of the selected profile\<close>

text \<open>
  C5.  When the selected profile lacks \<open>name\<close>, \<open>api_key\<close> or \<open>api_secret\<close>, the
  constructor raises the \<open>ConfigurationError\<close> whose message names a key that the
  profile lacks.  The environment is arbitrary: the check precedes the fallback to the
  environment variables.
\<close>

theorem missing_profile_key_ConfigurationError:
  assumes "load_config w a = Inr (Some cfg)"
    and "get_profile cfg (profile a) = Inr p"
    and "p ''name'' = None \<or> p ''api_key'' = None \<or> p ''api_secret'' = None"
  shows "\<exists>k. (k = ''name'' \<or> k = ''api_key'' \<or> k = ''api_secret'') \<and> p k = None \<and>
           Exoscale_init w a = Inl (ConfigurationError (missing_key_message k))"
proof -
  from assms(3) have "\<exists>k\<in>set (keys_in_order (set_order w)). p k = None"
    by (simp add: set_keys_in_order)
  from check_keys_missing [OF this] obtain k
    where k: "k \<in> set (keys_in_order (set_order w))" "p k = None"
      and c: "check_keys (keys_in_order (set_order w)) p =
                Inl (ConfigurationError (missing_key_message k))"
    by blast
  from assms(1,2) c
  have "select_profile w a = Inl (ConfigurationError (missing_key_message k))"
    by (simp add: select_profile_def)
  then have "Exoscale_init w a = Inl (ConfigurationError (missing_key_message k))"
    by (simp add: Exoscale_init_def resolve_def)
  with k show ?thesis by (auto simp: set_keys_in_order)
qed

text \<open>
  Witness for C5: the only profile of \<open>nosecret.toml\<close> has no \<open>api_secret\<close>, and the
  environment of \<open>machine\<close> sets \<open>EXOSCALE_API_SECRET\<close>.
\<close>

theorem missing_profile_key_ConfigurationError_witness:
  "load_config machine args_nosecret_toml = Inr (Some no_secret_config) \<and>
   get_profile no_secret_config (profile args_nosecret_toml) = Inr profile_no_secret \<and>
   profile_no_secret ''api_secret'' = None \<and>
   getenv machine API_SECRET_ENVVAR = Some ''ES'' \<and>
   (\<exists>k. (k = ''name'' \<or> k = ''api_key'' \<or> k = ''api_secret'') \<and> profile_no_secret k = None \<and>
      Exoscale_init machine args_nosecret_toml = Inl (ConfigurationError (missing_key_message k)))"
proof -
  have l: "load_config machine args_nosecret_toml = Inr (Some no_secret_config)"
    by (simp add: run_defs example_defs envvar_defs)
  have g: "get_profile no_secret_config (profile args_nosecret_toml) = Inr profile_no_secret"
    by (simp add: run_defs example_defs)
  have m: "profile_no_secret ''api_secret'' = None"
    by (simp add: profile_no_secret_def)
  have e: "getenv machine API_SECRET_ENVVAR = Some ''ES''"
    by (simp add: example_defs envvar_defs)
  show ?thesis
    using l g m e missing_profile_key_ConfigurationError [OF l g disjI2 [OF disjI2 [OF m]]]
    by simp
qed

subsection \<open>Locating the configuration file\<close>

text \<open>
  A truthy explicit path is the file used when it parses to a non-empty dictionary;
  without it, so is the path in \<open>EXOSCALE_CONFIG_FILE\<close>; without either, the file at the
  default path when it exists; and no file at all otherwise (\<open>load_config_no_file\<close>).
\<close>

lemma load_config_explicit_path:
  assumes "config_file a = Some p" and "p \<noteq> []" and "files w p = Some (Toml c)"
    and "config_truthy (Some c)"
  shows "load_config w a = Inr (Some c)"
  using assms by (simp add: load_config_def if_else_def toml_load_def)

lemma load_config_envvar_path:
  assumes "\<not> truthy (config_file a)" and "getenv w CONFIG_FILE_ENVVAR = Some p" and "p \<noteq> []"
    and "files w p = Some (Toml c)" and "config_truthy (Some c)"
  shows "load_config w a = Inr (Some c)"
  using assms by (simp add: load_config_def if_else_def toml_load_def)

lemma load_config_default_path:
  assumes "\<not> truthy (config_file a)" and "\<not> truthy (getenv w CONFIG_FILE_ENVVAR)"
    and "files w (DEFAULT_CONFIG_FILE w) = Some (Toml c)"
  shows "load_config w a = Inr (Some c)"
  using assms by (auto simp: load_config_def if_else_def toml_load_def split: option.splits)

text \<open>
  C6, at an input where the code departs from it.  The explicit path is present and
  loads (an empty dictionary); the file at the default path loads as well, and it is
  the one the constructor uses.
\<close>

theorem empty_config_file_default_used:
  "config_file args_empty_toml = Some ''/etc/exo/empty.toml'' \<and>
   toml_load machine_with_home_config ''/etc/exo/empty.toml'' = Inr empty_config \<and>
   toml_load machine_with_home_config (DEFAULT_CONFIG_FILE machine_with_home_config) =
     Inr one_profile \<and>
   load_config machine_with_home_config args_empty_toml = Inr (Some one_profile)"
  by (simp add: run_defs example_defs envvar_defs)

subsection \<open>Empty credentials from the environment\<close>

text \<open>
  C10.  With no configuration file (no truthy path as argument or in the environment,
  nothing at the default path), no truthy \<open>api_key\<close> and \<open>api_secret\<close> argument, and both
  environment variables set to the empty string, the constructor returns a client whose
  key and secret are the empty string.
\<close>

theorem empty_env_credentials_accepted:
  assumes "\<not> truthy (config_file a)" and "\<not> truthy (getenv w CONFIG_FILE_ENVVAR)"
    and "files w (DEFAULT_CONFIG_FILE w) = None"
    and "\<not> truthy (api_key a)" and "\<not> truthy (api_secret a)"
    and "getenv w API_KEY_ENVVAR = Some []" and "getenv w API_SECRET_ENVVAR = Some []"
  shows "\<exists>c. Exoscale_init w a = Inr c \<and> self_api_key c = [] \<and> self_api_secret c = []"
proof -
  have "load_config w a = Inr None"
    using assms(1-3) by (rule load_config_no_file)
  then have r: "resolve w a = Inr (env_fallback w a)"
    by (simp add: resolve_def select_profile_def)
  have "api_key (env_fallback w a) = Some []" "api_secret (env_fallback w a) = Some []"
    using assms(4-7) env_fallback_arg [of Api_key w a] env_fallback_arg [of Api_secret w a]
    by (simp_all add: if_else_def)
  with r show ?thesis by (simp add: Exoscale_init_def)
qed

text \<open>Witness for C10: the machine whose environment holds the two empty strings.\<close>

theorem empty_env_credentials_accepted_witness:
  "getenv machine_empty_credentials API_KEY_ENVVAR = Some [] \<and>
   getenv machine_empty_credentials API_SECRET_ENVVAR = Some [] \<and>
   load_config machine_empty_credentials no_args = Inr None \<and>
   (\<exists>c. Exoscale_init machine_empty_credentials no_args = Inr c \<and>
      self_api_key c = [] \<and> self_api_secret c = [])"
proof -
  have 1: "\<not> truthy (config_file no_args)" "\<not> truthy (api_key no_args)"
    "\<not> truthy (api_secret no_args)"
    by (simp_all add: no_args_def)
  have 2: "\<not> truthy (getenv machine_empty_credentials CONFIG_FILE_ENVVAR)"
    "getenv machine_empty_credentials API_KEY_ENVVAR = Some []"
    "getenv machine_empty_credentials API_SECRET_ENVVAR = Some []"
    by (simp_all add: machine_empty_credentials_def envvar_defs)
  have 3: "files machine_empty_credentials (DEFAULT_CONFIG_FILE machine_empty_credentials) = None"
    by (simp add: machine_empty_credentials_def)
  have 4: "load_config machine_empty_credentials no_args = Inr None"
    using 1(1) 2(1) 3 by (rule load_config_no_file)
  show ?thesis
    using 2(2,3) 4 empty_env_credentials_accepted [OF 1(1) 2(1) 3 1(2) 1(3) 2(2) 2(3)]
    by simp
qed


section \<open>Properties of the API client base class\<close>

subsection \<open>Tracing in \<open>API.send\<close>\<close>

text \<open>
  C7, as amended.  Tracing never alters what \<open>send\<close> returns or raises, and with
  tracing off nothing is printed.  With tracing on: when the request cannot be prepared,
  nothing is printed; when the prepared request is sent and a response comes back, the
  pre-request lines and then the post-response lines are printed; when sending the
  prepared request fails, the pre-request lines have been printed and no post-response
  line follows.
\<close>

theorem send_trace_cases:
  "fst (send (self\<lparr>API_trace := False\<rparr>) prepare session_send kwargs err) =
     fst (send (self\<lparr>API_trace := True\<rparr>) prepare session_send kwargs err) \<and>
   snd (send (self\<lparr>API_trace := False\<rparr>) prepare session_send kwargs err) = err \<and>
   (\<forall>e. prepare kwargs = Inl e \<longrightarrow>
      send (self\<lparr>API_trace := True\<rparr>) prepare session_send kwargs err = (Inl e, err)) \<and>
   (\<forall>req res. prepare kwargs = Inr req \<longrightarrow> session_send req = Inr res \<longrightarrow>
      send (self\<lparr>API_trace := True\<rparr>) prepare session_send kwargs err =
        (Inr res, err @ request_trace req @ response_trace res)) \<and>
   (\<forall>req e. prepare kwargs = Inr req \<longrightarrow> session_send req = Inl e \<longrightarrow>
      send (self\<lparr>API_trace := True\<rparr>) prepare session_send kwargs err =
        (Inl e, err @ request_trace req))"
  by (simp add: send_def Let_def split: sum.splits)

text \<open>
  Witness for C7: a traced client sends a prepared \<open>GET\<close> once through a session that
  answers and once through a session that refuses the connection.
\<close>

theorem send_trace_cases_witness:
  "prepare_get () = Inr get_request \<and>
   serve_ok get_request = Inr ok_response \<and>
   refuse_connection get_request = Inl ''ConnectionError'' \<and>
   send traced_api prepare_get serve_ok () [] =
     (Inr ok_response, request_trace get_request @ response_trace ok_response) \<and>
   send traced_api prepare_get refuse_connection () [] =
     (Inl ''ConnectionError'', request_trace get_request) \<and>
   fst (send (traced_api\<lparr>API_trace := False\<rparr>) prepare_get serve_ok () []) = Inr ok_response"
proof -
  have t: "traced_api\<lparr>API_trace := True\<rparr> = traced_api"
    by (simp add: traced_api_def)
  have p: "prepare_get () = Inr get_request"
    by (simp add: prepare_get_def)
  have s: "serve_ok get_request = Inr ok_response"
    by (simp add: serve_ok_def)
  have r: "refuse_connection get_request = Inl ''ConnectionError''"
    by (simp add: refuse_connection_def)
  show ?thesis
    using p s r send_trace_cases [of traced_api prepare_get serve_ok "()" "[]"]
      send_trace_cases [of traced_api prepare_get refuse_connection "()" "[]"]
    by (simp add: t)
qed

text \<open>
  Counterexample to C7 as stated: the traced client's request is prepared, the two
  pre-request lines are printed, and then the session raises.  The call fails after
  trace lines were printed, and no post-response line was printed.
\<close>

theorem send_partial_trace_counterexample:
  "API_trace traced_api \<and>
   request_trace get_request =
     [''>>> GET https://api.example/v1/zones'', ''    headers:{}''] \<and>
   send traced_api prepare_get refuse_connection () [] =
     (Inl ''ConnectionError'',
      [''>>> GET https://api.example/v1/zones'', ''    headers:{}''])"
  by (simp add: send_def traced_api_def prepare_get_def refuse_connection_def get_request_def
        request_trace_def)

subsection \<open>\<open>Resource._reset\<close>\<close>

lemma asdict_fields_keys: "asdict_fields n h fs = Inr d \<Longrightarrow> map fst d = map fst fs"
  by (induction fs arbitrary: d) (auto split: sum.splits)

lemma map_fst_assign: "map fst (assign k v fs) = map fst fs"
  by (induction fs) auto

lemma map_of_assign:
  "map_of (assign k v fs) k' = (if k' = k \<and> k \<in> fst ` set fs then Some v else map_of fs k')"
  by (induction fs) (auto simp: rev_image_eqI)

lemma reset_loop_other: "r \<noteq> self \<Longrightarrow> reset_loop ks self h r = h r"
  by (induction ks arbitrary: h) (auto simp: setattr_def)

lemma reset_loop_fields: "map fst (reset_loop ks self h self) = map fst (h self)"
  by (induction ks arbitrary: h) (auto simp: setattr_def map_fst_assign)

lemma reset_loop_value:
  "map_of (reset_loop ks self h self) k =
     (if k \<in> set ks \<and> k \<in> fst ` set (h self) then Some PNone else map_of (h self) k)"
proof (induction ks arbitrary: h)
  case Nil
  show ?case by simp
next
  case (Cons a ks)
  have f: "fst ` set (assign a PNone (h self)) = fst ` set (h self)"
    using map_fst_assign [of a PNone "h self"] by (metis list.set_map)
  show ?case
    by (auto simp: Cons.IH setattr_def f map_of_assign)
qed

text \<open>
  When \<open>asdict(self)\<close> returns, \<open>_reset\<close> returns, every declared field of the object at
  address \<open>self\<close> reads \<open>None\<close> afterwards, the object is still at the same address with the
  same fields (so whoever held a reference to it reads the blanked fields through that
  reference), and no other object of the heap has changed.
\<close>

lemma Resource_reset_returns:
  assumes "asdict limit h self = Inr d"
  shows "fst (Resource_reset limit h self) = Inr () \<and>
         (\<forall>k \<in> set (map fst (h self)).
            getattr (snd (Resource_reset limit h self)) self k = Some PNone) \<and>
         map fst (snd (Resource_reset limit h self) self) = map fst (h self) \<and>
         (\<forall>r. r \<noteq> self \<longrightarrow> snd (Resource_reset limit h self) r = h r)"
proof -
  from assms have "map fst d = map fst (h self)"
    by (simp add: asdict_def asdict_fields_keys)
  with assms show ?thesis
    by (simp add: Resource_reset_def getattr_def reset_loop_other reset_loop_fields
          reset_loop_value)
qed

text \<open>The instance at address 2 of \<open>zone_heap\<close> is reset; the zone it referred to is
  untouched.\<close>

lemma Resource_reset_zone_heap:
  "fst (Resource_reset 3 zone_heap 2) = Inr () \<and>
   getattr (snd (Resource_reset 3 zone_heap 2)) 2 ''res'' = Some PNone \<and>
   getattr (snd (Resource_reset 3 zone_heap 2)) 2 ''zone'' = Some PNone \<and>
   getattr (snd (Resource_reset 3 zone_heap 2)) 1 ''name'' = Some (PStr ''ch-gva-2'')"
  by (simp add: Resource_reset_def asdict_def zone_heap_def getattr_def setattr_def
        eval_nat_numeral)

lemma asdict_fields_cyclic:
  "asdict_fields n cyclic_heap [(''res'', Ref 1)] = Inl RecursionError"
proof (induction n)
  case 0
  show ?case by simp
next
  case (Suc n)
  have "cyclic_heap 1 = [(''res'', Ref 1)]" by (simp add: cyclic_heap_def)
  with Suc show ?case by simp
qed

text \<open>
  C8, at an input where the code departs from it.  The resource at address 1 of
  \<open>cyclic_heap\<close> refers to itself.  Whatever the recursion limit, \<open>asdict(self)\<close> raises
  \<open>RecursionError\<close>, \<open>_reset\<close> raises with it before any assignment, the heap is unchanged
  and the attribute \<open>res\<close> still holds the reference instead of \<open>None\<close>.
\<close>

theorem Resource_reset_cyclic_RecursionError:
  "Resource_reset limit cyclic_heap 1 = (Inl RecursionError, cyclic_heap) \<and>
   getattr cyclic_heap 1 ''res'' = Some (Ref 1)"
  using asdict_fields_cyclic [of limit]
  by (simp add: Resource_reset_def asdict_def getattr_def cyclic_heap_def)

subsection \<open>The shared default session\<close>

lemma API_init_session:
  "API_session (fst (API_init pf x st)) =
     (case arg_session x of None \<Rightarrow> API_default_session | Some s \<Rightarrow> s)"
  by (simp add: API_init_def Let_def)

lemma family_client_fields:
  "API_session (fst (family_client pf ep k st)) = API_default_session"
  "API_key (fst (family_client pf ep k st)) = kw_key k"
  "API_secret (fst (family_client pf ep k st)) = kw_secret k"
  "API_max_retries (fst (family_client pf ep k st)) = kw_max_retries k"
  "API_trace (fst (family_client pf ep k st)) = kw_trace k"
  by (simp_all add: family_client_def API_init_def Let_def)

lemma family_clients_list:
  "fst (family_clients pf eps c st) =
     [fst (family_client pf (compute_default eps) (compute c) st),
      fst (family_client pf (dns_default eps) (dns c)
             (snd (family_client pf (compute_default eps) (compute c) st))),
      fst (family_client pf (storage_default eps) (storage c)
             (snd (family_client pf (dns_default eps) (dns c)
                (snd (family_client pf (compute_default eps) (compute c) st))))),
      fst (family_client pf (runstatus_default eps) (runstatus c)
             (snd (family_client pf (storage_default eps) (storage c)
                (snd (family_client pf (dns_default eps) (dns c)
                   (snd (family_client pf (compute_default eps) (compute c) st))))))),
      fst (family_client pf (iam_default eps) (iam c)
             (snd (family_client pf (runstatus_default eps) (runstatus c)
                (snd (family_client pf (storage_default eps) (storage c)
                   (snd (family_client pf (dns_default eps) (dns c)
                      (snd (family_client pf (compute_default eps) (compute c) st)))))))))]"
  by (simp add: family_clients_def Let_def split_beta)

lemma family_clients_session:
  "m \<in> set (fst (family_clients pf eps c st)) \<Longrightarrow> API_session m = API_default_session"
  unfolding family_clients_list by (auto simp: family_client_fields)

text \<open>
  The sharing is of one mutable object: a client constructed later without a session
  mounts its adapter on the session that an earlier such client holds.
\<close>

lemma later_client_remounts_shared_session:
  assumes "arg_session x = None" and "arg_session y = None"
  shows "snd (API_init pf y (snd (API_init pf x st))) (API_session (fst (API_init pf x st)))
           ''https://'' =
         Some \<lparr>total = API_max_retries (fst (API_init pf y (snd (API_init pf x st)))),
               backoff_factor =
                 API_retry_backoff_factor (fst (API_init pf y (snd (API_init pf x st)))),
               status_forcelist = None\<rparr>"
  using assms by (simp add: API_init_def Let_def mount_def)

text \<open>
  C9.  The keyword arguments that a top-level client passes to its five family clients
  agree on key, secret, \<open>max_retries\<close> and \<open>trace\<close>, and so do the five clients built from
  them.  Any two \<open>API\<close> objects constructed without a session hold the same session, the
  default of the field; hence all family clients of any two top-level clients hold the
  same session.
\<close>

theorem shared_default_session:
  "(\<forall>c. Exoscale_init w a = Inr c \<longrightarrow>
      (\<forall>k \<in> {compute c, dns c, storage c, runstatus c, iam c}.
         kw_key k = self_api_key c \<and> kw_secret k = self_api_secret c \<and>
         kw_max_retries k = max_retries a \<and> kw_trace k = trace a) \<and>
      (\<forall>m \<in> set (fst (family_clients pf eps c st)).
         API_key m = self_api_key c \<and> API_secret m = self_api_secret c \<and>
         API_max_retries m = max_retries a \<and> API_trace m = trace a)) \<and>
   (arg_session x = None \<longrightarrow> arg_session y = None \<longrightarrow>
      API_session (fst (API_init pf1 x st1)) = API_session (fst (API_init pf2 y st2))) \<and>
   (\<forall>m \<in> set (fst (family_clients pf1 eps1 c1 st1)).
      \<forall>n \<in> set (fst (family_clients pf2 eps2 c2 st2)). API_session m = API_session n)"
proof (intro conjI allI impI ballI)
  fix c k
  assume c: "Exoscale_init w a = Inr c"
    and k: "k \<in> {compute c, dns c, storage c, runstatus c, iam c}"
  from Exoscale_init_kwargs [OF c k]
  show "kw_key k = self_api_key c" "kw_secret k = self_api_secret c"
    "kw_max_retries k = max_retries a" "kw_trace k = trace a"
    by simp_all
next
  fix c m
  assume c: "Exoscale_init w a = Inr c"
    and m: "m \<in> set (fst (family_clients pf eps c st))"
  have kws: "compute c \<in> {compute c, dns c, storage c, runstatus c, iam c}"
    "dns c \<in> {compute c, dns c, storage c, runstatus c, iam c}"
    "storage c \<in> {compute c, dns c, storage c, runstatus c, iam c}"
    "runstatus c \<in> {compute c, dns c, storage c, runstatus c, iam c}"
    "iam c \<in> {compute c, dns c, storage c, runstatus c, iam c}"
    by simp_all
  from m kws [THEN Exoscale_init_kwargs [OF c]]
  show "API_key m = self_api_key c" "API_secret m = self_api_secret c"
    "API_max_retries m = max_retries a" "API_trace m = trace a"
    unfolding family_clients_list by (auto simp: family_client_fields)
next
  assume "arg_session x = None" "arg_session y = None"
  then show "API_session (fst (API_init pf1 x st1)) = API_session (fst (API_init pf2 y st2))"
    by (simp add: API_init_session)
next
  fix m n
  assume "m \<in> set (fst (family_clients pf1 eps1 c1 st1))"
    "n \<in> set (fst (family_clients pf2 eps2 c2 st2))"
  then show "API_session m = API_session n"
    by (simp add: family_clients_session)
qed

text \<open>
  Witness for C9: the family clients of \<open>client_two\<close> (constructed on \<open>machine\<close> from the
  file of two profiles) and of \<open>client_env\<close> (constructed from the environment).
\<close>

theorem shared_default_session_witness:
  "Exoscale_init machine args_two_toml = Inr client_two \<and>
   map kw_key [compute client_two, dns client_two, storage client_two, runstatus client_two,
     iam client_two] = [''K2'', ''K2'', ''K2'', ''K2'', ''K2''] \<and>
   map API_secret (fst (family_clients example_platform example_endpoints client_two no_adapters))
     = [''XS'', ''XS'', ''XS'', ''XS'', ''XS''] \<and>
   map API_session (fst (family_clients example_platform example_endpoints client_two no_adapters))
     = map API_session
         (fst (family_clients example_platform example_endpoints client_env no_adapters))"
proof -
  have h: "Exoscale_init machine args_two_toml = Inr client_two"
    by (simp add: run_defs example_defs envvar_defs)
  have k: "self_api_key client_two = ''K2''" "self_api_secret client_two = ''XS''"
    by (simp_all add: client_two_def)
  show ?thesis
    using h k
      shared_default_session [where w = machine and a = args_two_toml
        and pf = example_platform and eps = example_endpoints and st = no_adapters
        and ?pf1.0 = example_platform and ?eps1.0 = example_endpoints and ?c1.0 = client_two
        and ?st1.0 = no_adapters and ?pf2.0 = example_platform
        and ?eps2.0 = example_endpoints and ?c2.0 = client_env and ?st2.0 = no_adapters]
    by (simp add: family_clients_list family_client_fields client_two_def kw_def)
qed


end
